theory Spec2Isabelle
  imports Complex_Main "HOL-Library.Multiset"
begin

section \<open>Data model\<close>

text \<open>
  The error values of \<^verbatim>\<open>methods.go\<close>. \<open>noDataFound\<close>, \<open>emptyNodeList\<close> and
  \<open>noNodeFound\<close> are the package's error variables; the other constructors stand for
  the errors that the client calls, \<^verbatim>\<open>fmt.Errorf\<close> and \<^verbatim>\<open>json.Unmarshal\<close> produce.
\<close>

datatype error =
    apiError string
  | statusError string
  | unmarshalError string
  | noDataFound
  | emptyNodeList
  | noNodeFound

text \<open>
  Modelled from the spec: the struct \<^verbatim>\<open>Node\<close> is declared outside \<^verbatim>\<open>methods.go\<close>;
  the code reads and writes its fields \<open>name\<close>, \<open>metric\<close> and \<open>err\<close>. The metric is a
  \<^verbatim>\<open>float64\<close> decoded from JSON, hence finite; finite floats are compared as the real
  numbers they denote, so the metric is a \<open>real\<close>. The zero value of the struct is
  \<open>zeroNode\<close>.
\<close>

record Node =
  name :: string
  metric :: real
  err :: "error option"

definition zeroNode :: Node where
  "zeroNode = \<lparr>name = [], metric = 0, err = None\<rparr>"

text \<open>
  Modelled from the spec: \<^verbatim>\<open>NodeList\<close> implements \<^verbatim>\<open>sort.Interface\<close> outside
  \<^verbatim>\<open>methods.go\<close>; the spec sorts the successful nodes by metric ascending.
\<close>

definition Less :: "Node \<Rightarrow> Node \<Rightarrow> bool" where
  "Less a b = (metric a < metric b)"

text \<open>
  Modelled from the spec: the type of the two cache slots is declared outside
  \<^verbatim>\<open>methods.go\<close>. A slot holds a value or nothing, \<open>Data\<close> returns the value and
  whether there is one, \<open>SetData\<close> stores a value; there is no expiry timer.
\<close>

type_synonym 'a Cache = "'a option"

definition Data :: "'a Cache \<Rightarrow> 'a option" where
  "Data slot = slot"

definition SetData :: "'a \<Rightarrow> 'a Cache" where
  "SetData v = Some v"

record cache =
  cachedNodes :: "string list Cache"
  bestCachedNode :: "Node Cache"

text \<open>
  The answer of the telemetry backend: the HTTP status, and the body as
  \<^verbatim>\<open>json.Unmarshal\<close> decodes it into \<^verbatim>\<open>metricData.Data\<close> (the list of the \<open>d\<close>
  arrays), or the decoding error.
\<close>

record response =
  StatusCode :: int
  Status :: string
  Body :: "error + real list list"

text \<open>
  What the process does not decide itself: the backend's answer to the request of the
  \<open>i\<close>-th goroutine, the configured mode, the order in which the goroutines deliver
  their nodes to the channels, and the result of \<^verbatim>\<open>sort.Sort\<close>.
\<close>

record env =
  GetData :: "nat \<Rightarrow> int \<Rightarrow> int \<Rightarrow> int \<Rightarrow> string \<Rightarrow> string \<Rightarrow> error + response"
  sysdigMetricLower :: bool
  arrival :: "Node list \<Rightarrow> Node list"
  sortSort :: "Node list \<Rightarrow> Node list"

datatype log_entry =
    LogUsingCache
  | LogNodeError string error
  | LogError error

text \<open>
  The result of a ranking call: the two values Go returns, the cache afterwards, the
  hosts queried and the lines logged.
\<close>

record ranking =
  bestNodeFound :: Node
  errFound :: "error option"
  cacheAfter :: cache
  queries :: "string list"
  logged :: "log_entry list"

section \<open>getMetrics\<close>

definition getMetrics ::
  "(int \<Rightarrow> int \<Rightarrow> int \<Rightarrow> string \<Rightarrow> string \<Rightarrow> error + response) \<Rightarrow> string \<Rightarrow> real \<times> error option" where
  "getMetrics getData hostname =
     (let hostFilter = ''host.hostName = '' @ [CHR 0x27] @ hostname @ [CHR 0x27];
          start = - 60;
          end' = 0;
          sampling = 60
      in case getData start end' sampling hostFilter ''host'' of
           Inl e \<Rightarrow> (0, Some e)
         | Inr metricDataResponse \<Rightarrow>
             if StatusCode metricDataResponse \<noteq> 200
             then (0, Some (statusError (''metric data response: '' @ Status metricDataResponse)))
             else (case Body metricDataResponse of
                     Inl e \<Rightarrow> (0, Some e)
                   | Inr metricData \<Rightarrow>
                       if length metricData > 0 \<and> length (metricData ! 0) > 0
                       then (metricData ! 0 ! 0, None)
                       else (0, Some noDataFound)))"

section \<open>getBestNodeByMetrics\<close>

text \<open>\<^verbatim>\<open>strings.Split(nodeName, ".")[0]\<close>: the text before the first dot.\<close>

definition splitFirst :: "string \<Rightarrow> string" where
  "splitFirst nodeName = takeWhile (\<lambda>ch. ch \<noteq> CHR ''.'') nodeName"

text \<open>
  The goroutine launched for the \<open>i\<close>-th node. The node it builds carries no error when
  it goes to \<^verbatim>\<open>nodeStatsChannel\<close> and an error when it goes to
  \<^verbatim>\<open>nodeStatsErrorsChannel\<close>.
\<close>

definition worker :: "env \<Rightarrow> nat \<Rightarrow> string \<Rightarrow> Node" where
  "worker e i nodeName =
     (let nodeNameLittle = splitFirst nodeName;
          (metricsValue, er) = getMetrics (GetData e i) nodeNameLittle
      in if er = None
         then \<lparr>name = nodeName, metric = metricsValue, err = None\<rparr>
         else \<lparr>name = nodeName, metric = 0, err = er\<rparr>)"

definition bestNodeFromList :: "env \<Rightarrow> Node list \<Rightarrow> Node" where
  "bestNodeFromList e list0 =
     (let list = sortSort e list0;
          lenght = length list
      in if lenght > 0
         then (if sysdigMetricLower e then list ! 0 else list ! (lenght - 1))
         else zeroNode)"

text \<open>Lines 88 to 135: the fan-out, the selection and the cache write.\<close>

definition rankingPass :: "env \<Rightarrow> cache \<Rightarrow> string list \<Rightarrow> ranking" where
  "rankingPass e c nodes =
     (let sent = arrival e (map (\<lambda>(i, node). worker e i node) (enumerate 0 nodes));
          nodeStatsChannel = filter (\<lambda>n. err n = None) sent;
          nodeStatsErrorsChannel = filter (\<lambda>n. err n \<noteq> None) sent;
          best = bestNodeFromList e nodeStatsChannel;
          lg = concat (map (\<lambda>n. case err n of None \<Rightarrow> [] | Some x \<Rightarrow> [LogNodeError (name n) x])
                 nodeStatsErrorsChannel);
          er = (if name best = [] \<or> metric best = - 1 then Some noNodeFound else None);
          c' = (if er = None then c\<lparr>bestCachedNode := SetData best\<rparr> else c)
      in \<lparr>bestNodeFound = best, errFound = er, cacheAfter = c',
          queries = map splitFirst nodes, logged = lg\<rparr>)"

text \<open>
  One call, from the cache \<open>c\<close> it finds. The lock only orders whole calls and is not
  part of the model. \<^verbatim>\<open>reflect.DeepEqual\<close> is applied to a list that is not empty, where
  it is equality of the two lists, element by element and in order.
\<close>

definition getBestNodeByMetrics :: "env \<Rightarrow> cache \<Rightarrow> string list \<Rightarrow> ranking" where
  "getBestNodeByMetrics e c nodes =
     (if length nodes = 0
      then \<lparr>bestNodeFound = zeroNode, errFound = Some emptyNodeList, cacheAfter = c,
            queries = [], logged = []\<rparr>
      else (case Data (cachedNodes c) of
              Some cached \<Rightarrow>
                if cached = nodes
                then (case Data (bestCachedNode c) of
                        Some bestNode \<Rightarrow>
                          \<lparr>bestNodeFound = bestNode, errFound = None, cacheAfter = c,
                           queries = [], logged = [LogUsingCache]\<rparr>
                      | None \<Rightarrow> rankingPass e c nodes)
                else rankingPass e c nodes
            | None \<Rightarrow> rankingPass e c nodes))"

section \<open>nodesAvailable\<close>

text \<open>
  The node objects of the listing: a name and status conditions, each a pair of a type
  and a status string (\<^verbatim>\<open>status.Type\<close>, \<^verbatim>\<open>status.Status\<close>).
\<close>

record condition =
  ConditionType :: string
  ConditionStatus :: string

record k8sNode =
  MetadataName :: string
  StatusConditions :: "condition list"

text \<open>
  The result of a listing call: the names returned, the cache afterwards, how often the
  platform was asked and the lines logged.
\<close>

record listing =
  readyNodes :: "string list"
  cacheAfterListing :: cache
  listCalls :: nat
  loggedListing :: "log_entry list"

text \<open>
  \<open>ListNodes\<close> is what \<^verbatim>\<open>kubeAPI.ListNodes()\<close> returns: the nodes and the error.
  A node is appended once for every condition of type \<open>Ready\<close> with status \<open>True\<close>.
\<close>

definition nodesAvailable :: "k8sNode list \<times> error option \<Rightarrow> cache \<Rightarrow> listing" where
  "nodesAvailable ListNodes c =
     (case Data (cachedNodes c) of
        Some nodes \<Rightarrow>
          \<lparr>readyNodes = nodes, cacheAfterListing = c, listCalls = 0, loggedListing = []\<rparr>
      | None \<Rightarrow>
          (let (nodes, er) = ListNodes;
               lg = (case er of None \<Rightarrow> [] | Some x \<Rightarrow> [LogError x]);
               ready = concat (map (\<lambda>node.
                   concat (map (\<lambda>status.
                       if ConditionStatus status = ''True'' \<and> ConditionType status = ''Ready''
                       then [MetadataName node] else [])
                     (StatusConditions node)))
                 nodes)
           in \<lparr>readyNodes = ready, cacheAfterListing = c\<lparr>cachedNodes := SetData ready\<rparr>,
               listCalls = 1, loggedListing = lg\<rparr>))"

section \<open>scheduler\<close>

text \<open>
  JSON values: the \<^verbatim>\<open>body\<close> map of the binding call, and what the marshalled payload
  denotes. Strings are byte strings, as in Go.
\<close>

datatype json = JString string | JObject "(string \<times> json) list"

fun field :: "json \<Rightarrow> string \<Rightarrow> json option" where
  "field (JObject kvs) k = map_of kvs k"
| "field (JString s) k = None"

text \<open>
  \<^verbatim>\<open>json.Marshal\<close> belongs to the Go library. It writes a string as a JSON string in
  which every byte that is not part of a valid UTF-8 sequence is replaced by U+FFFD; its
  escapes denote the characters they escape, and the order of the keys does not matter
  to the value. \<open>jsonMarshal\<close> is the JSON value that the marshalled bytes denote.
  \<open>runeLen\<close> is the length of the UTF-8 sequence that starts a string, \<open>0\<close> when the
  first byte starts none (\<^verbatim>\<open>utf8.DecodeRuneInString\<close> then returns the error rune with
  size 1); \<open>utf8Valid\<close> is \<^verbatim>\<open>utf8.ValidString\<close>.
\<close>

definition byteIn :: "nat \<Rightarrow> nat \<Rightarrow> char \<Rightarrow> bool" where
  "byteIn lo hi b \<longleftrightarrow> lo \<le> of_char b \<and> of_char b \<le> hi"

fun runeLen :: "string \<Rightarrow> nat" where
  "runeLen [] = 0"
| "runeLen (b0 # bs) =
     (if byteIn 0x00 0x7F b0 then 1
      else if byteIn 0xC2 0xDF b0 then
        (case bs of
           b1 # _ \<Rightarrow> if byteIn 0x80 0xBF b1 then 2 else 0
         | _ \<Rightarrow> 0)
      else if byteIn 0xE0 0xEF b0 then
        (case bs of
           b1 # b2 # _ \<Rightarrow>
             if byteIn (if b0 = CHR 0xE0 then 0xA0 else 0x80)
                       (if b0 = CHR 0xED then 0x9F else 0xBF) b1 \<and>
                byteIn 0x80 0xBF b2
             then 3 else 0
         | _ \<Rightarrow> 0)
      else if byteIn 0xF0 0xF4 b0 then
        (case bs of
           b1 # b2 # b3 # _ \<Rightarrow>
             if byteIn (if b0 = CHR 0xF0 then 0x90 else 0x80)
                       (if b0 = CHR 0xF4 then 0x8F else 0xBF) b1 \<and>
                byteIn 0x80 0xBF b2 \<and> byteIn 0x80 0xBF b3
             then 4 else 0
         | _ \<Rightarrow> 0)
      else 0)"

definition replacementRune :: string where
  "replacementRune = [CHR 0xEF, CHR 0xBF, CHR 0xBD]"

text \<open>
  \<open>coerceFrom k s\<close> copies the first \<open>k\<close> bytes, which continue a sequence already
  accepted, and then goes on sequence by sequence.
\<close>

fun coerceFrom :: "nat \<Rightarrow> string \<Rightarrow> string" where
  "coerceFrom k [] = []"
| "coerceFrom k (b # bs) =
     (if 0 < k then b # coerceFrom (k - 1) bs
      else if runeLen (b # bs) = 0 then replacementRune @ coerceFrom 0 bs
      else b # coerceFrom (runeLen (b # bs) - 1) bs)"

definition toValidUTF8 :: "string \<Rightarrow> string" where
  "toValidUTF8 s = coerceFrom 0 s"

fun validFrom :: "nat \<Rightarrow> string \<Rightarrow> bool" where
  "validFrom k [] = True"
| "validFrom k (b # bs) =
     (if 0 < k then validFrom (k - 1) bs
      else if runeLen (b # bs) = 0 then False
      else validFrom (runeLen (b # bs) - 1) bs)"

definition utf8Valid :: "string \<Rightarrow> bool" where
  "utf8Valid s = validFrom 0 s"

primrec jsonMarshal :: "json \<Rightarrow> json" where
  "jsonMarshal (JString s) = JString (toValidUTF8 s)"
| "jsonMarshal (JObject kvs) = JObject (map (map_prod toValidUTF8 jsonMarshal) kvs)"

text \<open>
  \<^verbatim>\<open>json.Marshal\<close> cannot fail on maps of strings, so the call always reaches
  \<^verbatim>\<open>CreateNamespacedBinding\<close>, which is a parameter: it receives the namespace and the
  marshalled payload.
\<close>

definition scheduler ::
  "(string \<Rightarrow> json \<Rightarrow> 'r) \<Rightarrow> string \<Rightarrow> string \<Rightarrow> string \<Rightarrow> 'r" where
  "scheduler CreateNamespacedBinding podName nodeName namespace0 =
     (let namespace = (if namespace0 = [] then ''default'' else namespace0);
          body = JObject
            [(''target'', JObject
                [(''kind'', JString ''Node''),
                 (''apiVersion'', JString ''v1''),
                 (''name'', JString nodeName),
                 (''namespace'', JString namespace)]),
             (''metadata'', JObject
                [(''name'', JString podName),
                 (''namespace'', JString namespace)])];
          data = jsonMarshal body
      in CreateNamespacedBinding namespace data)"

section \<open>The runtime and the metric fetches of a pass\<close>

text \<open>
  What the Go runtime and library guarantee: the channels deliver exactly the nodes that
  were sent, in some order, and \<^verbatim>\<open>sort.Sort\<close> returns a permutation of its input in
  which no element is \<open>Less\<close> than an earlier one (it need not be stable).
\<close>

definition runtime_ok :: "env \<Rightarrow> bool" where
  "runtime_ok e \<longleftrightarrow>
     (\<forall>xs. mset (arrival e xs) = mset xs) \<and>
     (\<forall>xs. mset (sortSort e xs) = mset xs \<and> sorted_wrt (\<lambda>a b. \<not> Less b a) (sortSort e xs))"

text \<open>The metric fetch of the \<open>i\<close>-th goroutine of a pass over \<open>nodes\<close>.\<close>

definition fetch :: "env \<Rightarrow> string list \<Rightarrow> nat \<Rightarrow> real \<times> error option" where
  "fetch e nodes i = getMetrics (GetData e i) (splitFirst (nodes ! i))"

definition launched :: "env \<Rightarrow> string list \<Rightarrow> Node list" where
  "launched e nodes = map (\<lambda>(i, node). worker e i node) (enumerate 0 nodes)"

definition nodeStats :: "env \<Rightarrow> string list \<Rightarrow> Node list" where
  "nodeStats e nodes = filter (\<lambda>n. err n = None) (arrival e (launched e nodes))"

section \<open>Concrete environments\<close>

definition okResponse :: "real list list \<Rightarrow> error + response" where
  "okResponse d = Inr \<lparr>StatusCode = 200, Status = ''200 OK'', Body = Inr d\<rparr>"

definition hostFilterOf :: "string \<Rightarrow> string" where
  "hostFilterOf h = ''host.hostName = '' @ [CHR 0x27] @ h @ [CHR 0x27]"

text \<open>
  An environment whose backend answers by host filter alone, whose goroutines finish in
  reverse launch order and whose sort is insertion sort by metric.
\<close>

definition demoEnv :: "(string \<Rightarrow> error + response) \<Rightarrow> bool \<Rightarrow> env" where
  "demoEnv backend lower =
     \<lparr>GetData = (\<lambda>i start end' sampling hostFilter grp. backend hostFilter),
      sysdigMetricLower = lower, arrival = rev, sortSort = sort_key metric\<rparr>"

definition emptyCache :: cache where
  "emptyCache = \<lparr>cachedNodes = None, bestCachedNode = None\<rparr>"

text \<open>Hosts \<open>n1\<close> and \<open>n2\<close> report 10 and 20, host \<open>n3\<close> answers HTTP 500.\<close>

definition backend12 :: "string \<Rightarrow> error + response" where
  "backend12 f =
     (if f = hostFilterOf ''n1'' then okResponse [[10, 11], [12]]
      else if f = hostFilterOf ''n2'' then okResponse [[20]]
      else if f = hostFilterOf ''n3''
      then Inr \<lparr>StatusCode = 500, Status = ''500 Internal Server Error'', Body = Inr []\<rparr>
      else okResponse [])"

text \<open>Hosts that report the metrics \<open>- 1\<close>, \<open>- 5\<close> and \<open>0\<close>.\<close>

definition backendLow :: "string \<Rightarrow> error + response" where
  "backendLow f =
     (if f = hostFilterOf ''a'' then okResponse [[- 1]]
      else if f = hostFilterOf ''m1'' then okResponse [[- 1]]
      else if f = hostFilterOf ''m2'' then okResponse [[- 5]]
      else if f = hostFilterOf ''z'' then okResponse [[0]]
      else okResponse [])"

definition node10 :: Node where
  "node10 = \<lparr>name = ''n1.example'', metric = 10, err = None\<rparr>"

definition listedCache :: cache where
  "listedCache = \<lparr>cachedNodes = Some [''n1.example'', ''n2.example''], bestCachedNode = None\<rparr>"

definition warmCache :: cache where
  "warmCache =
     \<lparr>cachedNodes = Some [''n1.example'', ''n2.example''], bestCachedNode = Some node10\<rparr>"

definition staleCache :: cache where
  "staleCache = \<lparr>cachedNodes = Some [], bestCachedNode = Some node10\<rparr>"

section \<open>Selection from a list\<close>

lemma set_arrival: "runtime_ok e \<Longrightarrow> set (arrival e xs) = set xs"
  unfolding runtime_ok_def by (metis mset_eq_setD)

lemma set_sortSort: "runtime_ok e \<Longrightarrow> set (sortSort e xs) = set xs"
  unfolding runtime_ok_def by (metis mset_eq_setD)

lemma length_sortSort: "runtime_ok e \<Longrightarrow> length (sortSort e xs) = length xs"
  unfolding runtime_ok_def by (metis mset_eq_length)

lemma sorted_sortSort:
  "runtime_ok e \<Longrightarrow> sorted_wrt (\<lambda>a b. metric a \<le> metric b) (sortSort e xs)"
  unfolding runtime_ok_def Less_def by (simp add: not_less)

lemma bestNodeFromList_Nil: "runtime_ok e \<Longrightarrow> bestNodeFromList e [] = zeroNode"
  using length_sortSort [of e "[]"] by (simp add: bestNodeFromList_def Let_def)

lemma bestNodeFromList_mem:
  assumes "runtime_ok e" and "xs \<noteq> []"
  shows "bestNodeFromList e xs \<in> set xs"
proof -
  let ?l = "sortSort e xs"
  have len: "length ?l = length xs" by (rule length_sortSort [OF assms(1)])
  with assms(2) have pos: "0 < length ?l" by simp
  then have "?l ! 0 \<in> set ?l" and "?l ! (length ?l - 1) \<in> set ?l"
    by simp_all
  with pos show ?thesis
    by (simp add: bestNodeFromList_def Let_def set_sortSort [OF assms(1)])
qed

lemma bestNodeFromList_lower:
  assumes "runtime_ok e" and "sysdigMetricLower e" and "n \<in> set xs"
  shows "metric (bestNodeFromList e xs) \<le> metric n"
proof -
  let ?l = "sortSort e xs"
  from assms(1,3) have "n \<in> set ?l" by (simp add: set_sortSort)
  then obtain j where j: "j < length ?l" "?l ! j = n" by (auto simp: in_set_conv_nth)
  have "metric (?l ! 0) \<le> metric (?l ! j)"
  proof (cases "j = 0")
    case True then show ?thesis by simp
  next
    case False
    with j sorted_wrt_nth_less [OF sorted_sortSort [OF assms(1), of xs], of 0 j]
    show ?thesis by simp
  qed
  with j assms(2) show ?thesis by (auto simp: bestNodeFromList_def Let_def)
qed

lemma bestNodeFromList_higher:
  assumes "runtime_ok e" and "\<not> sysdigMetricLower e" and "n \<in> set xs"
  shows "metric n \<le> metric (bestNodeFromList e xs)"
proof -
  let ?l = "sortSort e xs"
  from assms(1,3) have "n \<in> set ?l" by (simp add: set_sortSort)
  then obtain j where j: "j < length ?l" "?l ! j = n" by (auto simp: in_set_conv_nth)
  have "metric (?l ! j) \<le> metric (?l ! (length ?l - 1))"
  proof (cases "j = length ?l - 1")
    case True then show ?thesis by simp
  next
    case False
    with j have "j < length ?l - 1" by simp
    with j
      sorted_wrt_nth_less [OF sorted_sortSort [OF assms(1), of xs], of j "length ?l - 1"]
    show ?thesis by simp
  qed
  with j assms(2) show ?thesis by (auto simp: bestNodeFromList_def Let_def)
qed

section \<open>The nodes collected by a pass\<close>

lemma set_launched:
  "set (launched e nodes) = {worker e i (nodes ! i) | i. i < length nodes}"
proof -
  have "launched e nodes = map (\<lambda>i. worker e i (nodes ! i)) [0..<length nodes]"
    unfolding launched_def by (rule nth_equalityI) (simp_all add: nth_enumerate_eq)
  then show ?thesis by auto
qed

lemma worker_fetch:
  "i < length nodes \<Longrightarrow> worker e i (nodes ! i) =
     (if snd (fetch e nodes i) = None
      then \<lparr>name = nodes ! i, metric = fst (fetch e nodes i), err = None\<rparr>
      else \<lparr>name = nodes ! i, metric = 0, err = snd (fetch e nodes i)\<rparr>)"
  by (simp add: worker_def fetch_def Let_def split: prod.splits)

lemma set_nodeStats:
  assumes "runtime_ok e"
  shows "set (nodeStats e nodes) =
    {\<lparr>name = nodes ! i, metric = fst (fetch e nodes i), err = None\<rparr> | i.
       i < length nodes \<and> snd (fetch e nodes i) = None}"
    (is "?L = ?R")
proof
  show "?L \<subseteq> ?R"
  proof
    fix n assume "n \<in> ?L"
    then have "n \<in> set (launched e nodes)" and ok: "err n = None"
      by (simp_all add: nodeStats_def set_arrival [OF assms])
    then obtain i where i: "i < length nodes" "n = worker e i (nodes ! i)"
      by (auto simp: set_launched)
    with ok worker_fetch [OF i(1), of e] show "n \<in> ?R"
      by (auto split: if_splits)
  qed
  show "?R \<subseteq> ?L"
  proof
    fix n assume "n \<in> ?R"
    then obtain i where i: "i < length nodes" "snd (fetch e nodes i) = None"
      "n = \<lparr>name = nodes ! i, metric = fst (fetch e nodes i), err = None\<rparr>" by auto
    then have w: "n = worker e i (nodes ! i)" and ok: "err n = None"
      by (simp_all add: worker_fetch)
    from w i(1) have "n \<in> set (launched e nodes)"
      unfolding set_launched by blast
    with ok show "n \<in> ?L"
      by (simp add: nodeStats_def set_arrival [OF assms])
  qed
qed

lemma nodeStats_empty:
  assumes "runtime_ok e" and "\<forall>i<length nodes. snd (fetch e nodes i) \<noteq> None"
  shows "nodeStats e nodes = []"
proof -
  from assms have "set (nodeStats e nodes) = {}" by (auto simp: set_nodeStats)
  then show ?thesis by simp
qed

section \<open>The ranking pass\<close>

lemma rankingPass_best:
  "bestNodeFound (rankingPass e c nodes) = bestNodeFromList e (nodeStats e nodes)"
  by (simp add: rankingPass_def nodeStats_def launched_def Let_def)

lemma rankingPass_err:
  "errFound (rankingPass e c nodes) =
     (if name (bestNodeFound (rankingPass e c nodes)) = [] \<or>
         metric (bestNodeFound (rankingPass e c nodes)) = - 1
      then Some noNodeFound else None)"
  by (simp add: rankingPass_def Let_def)

lemma rankingPass_cache:
  "cacheAfter (rankingPass e c nodes) =
     (if errFound (rankingPass e c nodes) = None
      then c\<lparr>bestCachedNode := Some (bestNodeFound (rankingPass e c nodes))\<rparr> else c)"
  by (simp add: rankingPass_def Let_def SetData_def)

lemma rankingPass_queries: "queries (rankingPass e c nodes) = map splitFirst nodes"
  by (simp add: rankingPass_def Let_def)

lemma rankingPass_select:
  assumes ok: "runtime_ok e" and i: "i < length nodes" "snd (fetch e nodes i) = None"
  shows "\<exists>k<length nodes. snd (fetch e nodes k) = None \<and>
           bestNodeFound (rankingPass e c nodes) =
             \<lparr>name = nodes ! k, metric = fst (fetch e nodes k), err = None\<rparr>"
proof -
  from i have "\<lparr>name = nodes ! i, metric = fst (fetch e nodes i), err = None\<rparr>
      \<in> set (nodeStats e nodes)"
    unfolding set_nodeStats [OF ok] by blast
  then have "nodeStats e nodes \<noteq> []" by auto
  from bestNodeFromList_mem [OF ok this]
  have "bestNodeFound (rankingPass e c nodes) \<in> set (nodeStats e nodes)"
    by (simp add: rankingPass_best)
  then show ?thesis unfolding set_nodeStats [OF ok] by blast
qed

lemma rankingPass_extremal:
  assumes ok: "runtime_ok e" and j: "j < length nodes" "snd (fetch e nodes j) = None"
  shows "if sysdigMetricLower e
         then metric (bestNodeFound (rankingPass e c nodes)) \<le> fst (fetch e nodes j)
         else fst (fetch e nodes j) \<le> metric (bestNodeFound (rankingPass e c nodes))"
proof -
  let ?n = "\<lparr>name = nodes ! j, metric = fst (fetch e nodes j), err = None\<rparr>"
  from j have mem: "?n \<in> set (nodeStats e nodes)"
    unfolding set_nodeStats [OF ok] by blast
  show ?thesis
  proof (cases "sysdigMetricLower e")
    case True
    with bestNodeFromList_lower [OF ok True mem] show ?thesis
      by (simp add: rankingPass_best)
  next
    case False
    with bestNodeFromList_higher [OF ok False mem] show ?thesis
      by (simp add: rankingPass_best)
  qed
qed

lemma rankingPass_none_fetched:
  assumes "runtime_ok e" and "\<forall>i<length nodes. snd (fetch e nodes i) \<noteq> None"
  shows "bestNodeFound (rankingPass e c nodes) = zeroNode"
  by (simp add: rankingPass_best nodeStats_empty [OF assms] bestNodeFromList_Nil [OF assms(1)])

lemma getBestNodeByMetrics_miss:
  "nodes \<noteq> [] \<Longrightarrow> \<not> (cachedNodes c = Some nodes \<and> bestCachedNode c \<noteq> None) \<Longrightarrow>
   getBestNodeByMetrics e c nodes = rankingPass e c nodes"
  by (auto simp add: getBestNodeByMetrics_def Data_def split: option.splits)

lemma getBestNodeByMetrics_hit:
  "nodes \<noteq> [] \<Longrightarrow> cachedNodes c = Some nodes \<Longrightarrow> bestCachedNode c = Some b \<Longrightarrow>
   getBestNodeByMetrics e c nodes =
     \<lparr>bestNodeFound = b, errFound = None, cacheAfter = c, queries = [],
      logged = [LogUsingCache]\<rparr>"
  by (simp add: getBestNodeByMetrics_def Data_def)

section \<open>Evaluation in the concrete environments\<close>

lemma runtime_ok_demoEnv: "runtime_ok (demoEnv backend lower)"
proof -
  have "sorted_wrt (\<lambda>a b. \<not> Less b a) (sort_key metric xs)" for xs :: "Node list"
    using sorted_sort_key [of metric xs] by (simp add: sorted_map Less_def not_less)
  then show ?thesis by (simp add: runtime_ok_def demoEnv_def)
qed

lemma demoEnv_sel:
  "GetData (demoEnv backend lower) i start end' sampling hostFilter grp = backend hostFilter"
  "sysdigMetricLower (demoEnv backend lower) = lower"
  "arrival (demoEnv backend lower) = rev"
  "sortSort (demoEnv backend lower) = sort_key metric"
  by (simp_all add: demoEnv_def)

lemmas backend_defs =
  getMetrics_def demoEnv_sel backend12_def backendLow_def hostFilterOf_def okResponse_def
  splitFirst_def

lemma getMetrics_demo12:
  "getMetrics (GetData (demoEnv backend12 lower) i) ''n1'' = (10, None)"
  "getMetrics (GetData (demoEnv backend12 lower) i) ''n2'' = (20, None)"
  "getMetrics (GetData (demoEnv backend12 lower) i) ''n3'' =
     (0, Some (statusError ''metric data response: 500 Internal Server Error''))"
  "getMetrics (GetData (demoEnv backend12 lower) i) ''n4'' = (0, Some noDataFound)"
  by (simp_all add: backend_defs)

lemma getMetrics_demoLow:
  "getMetrics (GetData (demoEnv backendLow lower) i) ''a'' = (- 1, None)"
  "getMetrics (GetData (demoEnv backendLow lower) i) ''m1'' = (- 1, None)"
  "getMetrics (GetData (demoEnv backendLow lower) i) ''m2'' = (- 5, None)"
  "getMetrics (GetData (demoEnv backendLow lower) i) ''z'' = (0, None)"
  by (simp_all add: backend_defs)

lemma splitFirst_demo:
  "splitFirst ''n1.example'' = ''n1''"
  "splitFirst ''n2.example'' = ''n2''"
  "splitFirst ''z.example'' = ''z''"
  "splitFirst ''a'' = ''a''"
  "splitFirst ''m1'' = ''m1''"
  "splitFirst ''m2'' = ''m2''"
  by (simp_all add: splitFirst_def)

lemmas pass_defs =
  rankingPass_def bestNodeFromList_def worker_def splitFirst_demo getMetrics_demo12
  getMetrics_demoLow demoEnv_sel Let_def SetData_def zeroNode_def

lemma rankingPass_demo12:
  "rankingPass (demoEnv backend12 True) c [''n1.example'', ''n2.example''] =
     \<lparr>bestNodeFound = node10, errFound = None,
      cacheAfter = c\<lparr>bestCachedNode := Some node10\<rparr>,
      queries = [''n1'', ''n2''], logged = []\<rparr>"
  by (simp add: pass_defs node10_def)

lemma rankingPass_demo_a:
  "rankingPass (demoEnv backendLow True) c [''a''] =
     \<lparr>bestNodeFound = \<lparr>name = ''a'', metric = - 1, err = None\<rparr>,
      errFound = Some noNodeFound, cacheAfter = c, queries = [''a''], logged = []\<rparr>"
  by (simp add: pass_defs)

lemma rankingPass_demo_m:
  "rankingPass (demoEnv backendLow False) c [''m1'', ''m2''] =
     \<lparr>bestNodeFound = \<lparr>name = ''m1'', metric = - 1, err = None\<rparr>,
      errFound = Some noNodeFound, cacheAfter = c, queries = [''m1'', ''m2''], logged = []\<rparr>"
  by (simp add: pass_defs)

lemma rankingPass_demo_z:
  "rankingPass (demoEnv backendLow True) c [''z.example''] =
     \<lparr>bestNodeFound = \<lparr>name = ''z.example'', metric = 0, err = None\<rparr>,
      errFound = None,
      cacheAfter = c\<lparr>bestCachedNode := Some \<lparr>name = ''z.example'', metric = 0, err = None\<rparr>\<rparr>,
      queries = [''z''], logged = []\<rparr>"
  by (simp add: pass_defs)

section \<open>The node returned by a pass\<close>

text \<open>
  C1. For every non-empty input list of node names for which the metric fetch of at least
  one node succeeds: when the call is served from the cache (the cached ready-node list
  equals the input and a cached best node exists), it returns the cached best node
  without an error and without a query, whatever list that node was ranked from.
  Otherwise the node that \<open>getBestNodeByMetrics\<close> selects has a name of the input list,
  is one of the successfully fetched nodes, and its metric is extremal among the metrics
  of all successfully fetched nodes of the pass: less than or equal to each of them in the
  lower-is-better mode, greater than or equal otherwise; the call returns that node
  without an error when the node's name is not empty and its metric is not \<open>- 1\<close>, and
  fails with \<open>noNodeFound\<close> when the name is empty or the metric is \<open>- 1\<close>.
\<close>

theorem getBestNodeByMetrics_extremal:
  assumes "runtime_ok e"
    and "nodes \<noteq> []"
    and "i < length nodes"
    and "snd (fetch e nodes i) = None"
  shows "if cachedNodes c = Some nodes \<and> bestCachedNode c \<noteq> None
    then bestCachedNode c = Some (bestNodeFound (getBestNodeByMetrics e c nodes)) \<and>
      errFound (getBestNodeByMetrics e c nodes) = None \<and>
      queries (getBestNodeByMetrics e c nodes) = []
    else name (bestNodeFound (getBestNodeByMetrics e c nodes)) \<in> set nodes \<and>
      (\<exists>k<length nodes. snd (fetch e nodes k) = None \<and>
         bestNodeFound (getBestNodeByMetrics e c nodes) =
           \<lparr>name = nodes ! k, metric = fst (fetch e nodes k), err = None\<rparr>) \<and>
      (\<forall>j<length nodes. snd (fetch e nodes j) = None \<longrightarrow>
         (if sysdigMetricLower e
          then metric (bestNodeFound (getBestNodeByMetrics e c nodes)) \<le> fst (fetch e nodes j)
          else fst (fetch e nodes j) \<le> metric (bestNodeFound (getBestNodeByMetrics e c nodes)))) \<and>
      errFound (getBestNodeByMetrics e c nodes) =
        (if name (bestNodeFound (getBestNodeByMetrics e c nodes)) = [] \<or>
            metric (bestNodeFound (getBestNodeByMetrics e c nodes)) = - 1
         then Some noNodeFound else None)"
proof (cases "cachedNodes c = Some nodes \<and> bestCachedNode c \<noteq> None")
  case True
  then obtain b where b: "cachedNodes c = Some nodes" "bestCachedNode c = Some b" by auto
  from getBestNodeByMetrics_hit [OF assms(2) b, of e] True b show ?thesis by simp
next
  case False
  have eq: "getBestNodeByMetrics e c nodes = rankingPass e c nodes"
    by (rule getBestNodeByMetrics_miss [OF assms(2) False])
  from rankingPass_select [OF assms(1,3,4), of c]
  obtain k where k: "k < length nodes" "snd (fetch e nodes k) = None"
    "bestNodeFound (rankingPass e c nodes) =
       \<lparr>name = nodes ! k, metric = fst (fetch e nodes k), err = None\<rparr>"
    by blast
  from k have "name (bestNodeFound (rankingPass e c nodes)) \<in> set nodes" by simp
  moreover from k have "\<exists>k<length nodes. snd (fetch e nodes k) = None \<and>
       bestNodeFound (rankingPass e c nodes) =
         \<lparr>name = nodes ! k, metric = fst (fetch e nodes k), err = None\<rparr>" by blast
  moreover have "\<forall>j<length nodes. snd (fetch e nodes j) = None \<longrightarrow>
       (if sysdigMetricLower e
        then metric (bestNodeFound (rankingPass e c nodes)) \<le> fst (fetch e nodes j)
        else fst (fetch e nodes j) \<le> metric (bestNodeFound (rankingPass e c nodes)))"
    using rankingPass_extremal [OF assms(1), of _ nodes c] by blast
  moreover have "errFound (rankingPass e c nodes) =
       (if name (bestNodeFound (rankingPass e c nodes)) = [] \<or>
           metric (bestNodeFound (rankingPass e c nodes)) = - 1
        then Some noNodeFound else None)"
    by (rule rankingPass_err)
  ultimately have "name (bestNodeFound (rankingPass e c nodes)) \<in> set nodes \<and>
      (\<exists>k<length nodes. snd (fetch e nodes k) = None \<and>
         bestNodeFound (rankingPass e c nodes) =
           \<lparr>name = nodes ! k, metric = fst (fetch e nodes k), err = None\<rparr>) \<and>
      (\<forall>j<length nodes. snd (fetch e nodes j) = None \<longrightarrow>
         (if sysdigMetricLower e
          then metric (bestNodeFound (rankingPass e c nodes)) \<le> fst (fetch e nodes j)
          else fst (fetch e nodes j) \<le> metric (bestNodeFound (rankingPass e c nodes)))) \<and>
      errFound (rankingPass e c nodes) =
        (if name (bestNodeFound (rankingPass e c nodes)) = [] \<or>
            metric (bestNodeFound (rankingPass e c nodes)) = - 1
         then Some noNodeFound else None)"
    by blast
  then show ?thesis unfolding eq if_not_P [OF False] .
qed

theorem getBestNodeByMetrics_extremal_witness:
  "runtime_ok (demoEnv backend12 True) \<and>
   fetch (demoEnv backend12 True) [''n1.example'', ''n2.example''] 0 = (10, None) \<and>
   fetch (demoEnv backend12 True) [''n1.example'', ''n2.example''] (Suc 0) = (20, None) \<and>
   name (bestNodeFound (getBestNodeByMetrics (demoEnv backend12 True) emptyCache
     [''n1.example'', ''n2.example''])) \<in> set [''n1.example'', ''n2.example''] \<and>
   metric (bestNodeFound (getBestNodeByMetrics (demoEnv backend12 True) emptyCache
     [''n1.example'', ''n2.example''])) \<le> 20 \<and>
   errFound (getBestNodeByMetrics (demoEnv backend12 True) emptyCache
     [''n1.example'', ''n2.example'']) = None \<and>
   bestNodeFound (getBestNodeByMetrics (demoEnv backend12 True) warmCache
     [''n1.example'', ''n2.example'']) = node10"
proof -
  let ?e = "demoEnv backend12 True"
  let ?ns = "[''n1.example'', ''n2.example'']"
  have f0: "fetch ?e ?ns 0 = (10, None)"
    by (simp add: fetch_def splitFirst_demo getMetrics_demo12)
  have f1: "fetch ?e ?ns (Suc 0) = (20, None)"
    by (simp add: fetch_def splitFirst_demo getMetrics_demo12)
  have ne: "?ns \<noteq> []" by simp
  have miss: "\<not> (cachedNodes emptyCache = Some ?ns \<and> bestCachedNode emptyCache \<noteq> None)"
    by (simp add: emptyCache_def)
  have i0: "0 < length ?ns" by simp
  have s0: "snd (fetch ?e ?ns 0) = None" by (simp add: f0)
  note th = getBestNodeByMetrics_extremal [OF runtime_ok_demoEnv ne i0 s0]
  note th0 = th [of emptyCache, unfolded if_not_P [OF miss]]
  from th0 have mem: "name (bestNodeFound (getBestNodeByMetrics ?e emptyCache ?ns)) \<in> set ?ns"
    by blast
  from th0 have "\<forall>j<length ?ns. snd (fetch ?e ?ns j) = None \<longrightarrow>
      (if sysdigMetricLower ?e
       then metric (bestNodeFound (getBestNodeByMetrics ?e emptyCache ?ns)) \<le> fst (fetch ?e ?ns j)
       else fst (fetch ?e ?ns j) \<le> metric (bestNodeFound (getBestNodeByMetrics ?e emptyCache ?ns)))"
    by blast
  then have "snd (fetch ?e ?ns (Suc 0)) = None \<longrightarrow>
      metric (bestNodeFound (getBestNodeByMetrics ?e emptyCache ?ns)) \<le> fst (fetch ?e ?ns (Suc 0))"
    by (simp add: demoEnv_sel)
  then have le: "metric (bestNodeFound (getBestNodeByMetrics ?e emptyCache ?ns)) \<le> 20"
    by (simp add: f1)
  have "getBestNodeByMetrics ?e emptyCache ?ns = rankingPass ?e emptyCache ?ns"
    by (rule getBestNodeByMetrics_miss [OF ne miss])
  then have best: "bestNodeFound (getBestNodeByMetrics ?e emptyCache ?ns) = node10"
    by (simp add: rankingPass_demo12)
  from th0 have "errFound (getBestNodeByMetrics ?e emptyCache ?ns) =
       (if name (bestNodeFound (getBestNodeByMetrics ?e emptyCache ?ns)) = [] \<or>
           metric (bestNodeFound (getBestNodeByMetrics ?e emptyCache ?ns)) = - 1
        then Some noNodeFound else None)"
    by blast
  then have ok: "errFound (getBestNodeByMetrics ?e emptyCache ?ns) = None"
    by (simp add: best node10_def)
  have hitc: "cachedNodes warmCache = Some ?ns \<and> bestCachedNode warmCache \<noteq> None"
    by (simp add: warmCache_def)
  note th1 = th [of warmCache, unfolded if_P [OF hitc]]
  from th1 have "bestCachedNode warmCache =
      Some (bestNodeFound (getBestNodeByMetrics ?e warmCache ?ns))"
    by blast
  then have hit: "bestNodeFound (getBestNodeByMetrics ?e warmCache ?ns) = node10"
    by (simp add: warmCache_def)
  from runtime_ok_demoEnv f0 f1 mem le ok hit show ?thesis by blast
qed

text \<open>
  A successful fetch alone does not make the call return a node of the list. A single node
  whose fetch succeeds with the metric \<open>- 1\<close> is selected, and the call fails with
  \<open>noNodeFound\<close>. And after a pass over \<open>z.example\<close> that found the ready-node list of
  \<open>n1.example\<close> and \<open>n2.example\<close> cached, the call for these two nodes, whose fetches
  would succeed, returns \<open>z.example\<close> from the cache without an error.
\<close>

theorem getBestNodeByMetrics_extremal_counterexample:
  "runtime_ok (demoEnv backendLow True) \<and>
   fetch (demoEnv backendLow True) [''a''] 0 = (- 1, None) \<and>
   errFound (getBestNodeByMetrics (demoEnv backendLow True) emptyCache [''a'']) =
     Some noNodeFound \<and>
   runtime_ok (demoEnv backend12 True) \<and>
   errFound (getBestNodeByMetrics (demoEnv backendLow True) listedCache [''z.example'']) = None \<and>
   fetch (demoEnv backend12 True) [''n1.example'', ''n2.example''] 0 = (10, None) \<and>
   bestNodeFound (getBestNodeByMetrics (demoEnv backend12 True)
       (cacheAfter (getBestNodeByMetrics (demoEnv backendLow True) listedCache [''z.example'']))
       [''n1.example'', ''n2.example'']) =
     \<lparr>name = ''z.example'', metric = 0, err = None\<rparr> \<and>
   errFound (getBestNodeByMetrics (demoEnv backend12 True)
       (cacheAfter (getBestNodeByMetrics (demoEnv backendLow True) listedCache [''z.example'']))
       [''n1.example'', ''n2.example'']) = None \<and>
   ''z.example'' \<notin> set [''n1.example'', ''n2.example'']"
proof -
  let ?ns = "[''n1.example'', ''n2.example'']"
  let ?z = "\<lparr>name = ''z.example'', metric = 0, err = None\<rparr>"
  have "getBestNodeByMetrics (demoEnv backendLow True) emptyCache [''a''] =
      rankingPass (demoEnv backendLow True) emptyCache [''a'']"
    by (rule getBestNodeByMetrics_miss) (simp_all add: emptyCache_def)
  then have a: "errFound (getBestNodeByMetrics (demoEnv backendLow True) emptyCache [''a'']) =
      Some noNodeFound"
    by (simp add: rankingPass_demo_a)
  have fa: "fetch (demoEnv backendLow True) [''a''] 0 = (- 1, None)"
    by (simp add: fetch_def splitFirst_demo getMetrics_demoLow)
  have "getBestNodeByMetrics (demoEnv backendLow True) listedCache [''z.example''] =
      rankingPass (demoEnv backendLow True) listedCache [''z.example'']"
    by (rule getBestNodeByMetrics_miss) (simp_all add: listedCache_def)
  then have r1: "getBestNodeByMetrics (demoEnv backendLow True) listedCache [''z.example''] =
      \<lparr>bestNodeFound = ?z, errFound = None,
       cacheAfter = listedCache\<lparr>bestCachedNode := Some ?z\<rparr>,
       queries = [''z''], logged = []\<rparr>"
    by (simp only: rankingPass_demo_z)
  then have z1: "errFound (getBestNodeByMetrics (demoEnv backendLow True) listedCache
      [''z.example'']) = None"
    and c1: "cacheAfter (getBestNodeByMetrics (demoEnv backendLow True) listedCache
      [''z.example'']) = listedCache\<lparr>bestCachedNode := Some ?z\<rparr>"
    by simp_all
  have r2: "getBestNodeByMetrics (demoEnv backend12 True)
      (listedCache\<lparr>bestCachedNode := Some ?z\<rparr>) ?ns =
      \<lparr>bestNodeFound = ?z, errFound = None,
       cacheAfter = listedCache\<lparr>bestCachedNode := Some ?z\<rparr>, queries = [],
       logged = [LogUsingCache]\<rparr>"
    by (rule getBestNodeByMetrics_hit) (simp_all add: listedCache_def)
  have f0: "fetch (demoEnv backend12 True) ?ns 0 = (10, None)"
    by (simp add: fetch_def splitFirst_demo getMetrics_demo12)
  have nz: "''z.example'' \<notin> set ?ns" by simp
  have b2: "bestNodeFound (getBestNodeByMetrics (demoEnv backend12 True)
       (cacheAfter (getBestNodeByMetrics (demoEnv backendLow True) listedCache [''z.example'']))
       ?ns) = ?z"
    and e2: "errFound (getBestNodeByMetrics (demoEnv backend12 True)
       (cacheAfter (getBestNodeByMetrics (demoEnv backendLow True) listedCache [''z.example'']))
       ?ns) = None"
    by (simp_all only: c1 r2 ranking.simps)
  from a fa z1 f0 b2 e2 nz runtime_ok_demoEnv [of backendLow True]
    runtime_ok_demoEnv [of backend12 True]
  show ?thesis by blast
qed

section \<open>When the call fails with noNodeFound\<close>

text \<open>
  C2. \<open>getBestNodeByMetrics\<close> fails with \<open>noNodeFound\<close> exactly when the list
  is not empty, the pass is not served from the cache, and no fetch succeeded or the
  selected node has the empty name or the metric \<open>- 1\<close>. The no-metric sentinel is the
  value \<open>- 1\<close> itself: a selected node with metric \<open>0\<close>, or any other value than
  \<open>- 1\<close>, and a name that is not empty does not fail, and a selected node whose fetched
  metric is \<open>- 1\<close> does.
\<close>

theorem getBestNodeByMetrics_noNodeFound:
  assumes "runtime_ok e"
  shows "errFound (getBestNodeByMetrics e c nodes) = Some noNodeFound \<longleftrightarrow>
    nodes \<noteq> [] \<and>
    \<not> (cachedNodes c = Some nodes \<and> bestCachedNode c \<noteq> None) \<and>
    ((\<forall>i<length nodes. snd (fetch e nodes i) \<noteq> None) \<or>
     name (bestNodeFound (getBestNodeByMetrics e c nodes)) = [] \<or>
     metric (bestNodeFound (getBestNodeByMetrics e c nodes)) = - 1)"
proof (cases "nodes = []")
  case True
  then show ?thesis by (simp add: getBestNodeByMetrics_def)
next
  case ne: False
  show ?thesis
  proof (cases "cachedNodes c = Some nodes \<and> bestCachedNode c \<noteq> None")
    case True
    then obtain b where "cachedNodes c = Some nodes" "bestCachedNode c = Some b" by auto
    from getBestNodeByMetrics_hit [OF ne this, of e] True show ?thesis by simp
  next
    case False
    have eq: "getBestNodeByMetrics e c nodes = rankingPass e c nodes"
      by (rule getBestNodeByMetrics_miss [OF ne False])
    have none: "(\<forall>i<length nodes. snd (fetch e nodes i) \<noteq> None) \<Longrightarrow>
        name (bestNodeFound (rankingPass e c nodes)) = []"
      by (simp add: rankingPass_none_fetched [OF assms] zeroNode_def)
    have "errFound (rankingPass e c nodes) = Some noNodeFound \<longleftrightarrow>
        name (bestNodeFound (rankingPass e c nodes)) = [] \<or>
        metric (bestNodeFound (rankingPass e c nodes)) = - 1"
      by (subst rankingPass_err) simp
    with none ne False show ?thesis unfolding eq by blast
  qed
qed

theorem getBestNodeByMetrics_noNodeFound_witness:
  "runtime_ok (demoEnv backendLow True) \<and>
   fetch (demoEnv backendLow True) [''z.example''] 0 = (0, None) \<and>
   bestNodeFound (getBestNodeByMetrics (demoEnv backendLow True) emptyCache [''z.example'']) =
     \<lparr>name = ''z.example'', metric = 0, err = None\<rparr> \<and>
   errFound (getBestNodeByMetrics (demoEnv backendLow True) emptyCache [''z.example'']) \<noteq>
     Some noNodeFound"
proof -
  let ?e = "demoEnv backendLow True"
  let ?ns = "[''z.example'']"
  have f0: "fetch ?e ?ns 0 = (0, None)"
    by (simp add: fetch_def splitFirst_demo getMetrics_demoLow)
  have "getBestNodeByMetrics ?e emptyCache ?ns = rankingPass ?e emptyCache ?ns"
    by (rule getBestNodeByMetrics_miss) (simp_all add: emptyCache_def)
  then have best: "bestNodeFound (getBestNodeByMetrics ?e emptyCache ?ns) =
      \<lparr>name = ''z.example'', metric = 0, err = None\<rparr>"
    by (simp add: rankingPass_demo_z)
  have "\<not> ((\<forall>i<length ?ns. snd (fetch ?e ?ns i) \<noteq> None) \<or>
     name (bestNodeFound (getBestNodeByMetrics ?e emptyCache ?ns)) = [] \<or>
     metric (bestNodeFound (getBestNodeByMetrics ?e emptyCache ?ns)) = - 1)"
    by (simp add: best f0)
  with getBestNodeByMetrics_noNodeFound [OF runtime_ok_demoEnv, of backendLow True emptyCache ?ns]
  have "errFound (getBestNodeByMetrics ?e emptyCache ?ns) \<noteq> Some noNodeFound"
    by blast
  with runtime_ok_demoEnv f0 best show ?thesis by blast
qed

text \<open>
  Two nodes whose fetches succeed with the metrics \<open>- 1\<close> and \<open>- 5\<close>, in the
  higher-is-better mode: the node with the valid metric \<open>- 1\<close> is selected and the call
  fails with \<open>noNodeFound\<close>.
\<close>

theorem getBestNodeByMetrics_noNodeFound_counterexample:
  "fetch (demoEnv backendLow False) [''m1'', ''m2''] 0 = (- 1, None) \<and>
   fetch (demoEnv backendLow False) [''m1'', ''m2''] (Suc 0) = (- 5, None) \<and>
   bestNodeFound (getBestNodeByMetrics (demoEnv backendLow False) emptyCache [''m1'', ''m2'']) =
     \<lparr>name = ''m1'', metric = - 1, err = None\<rparr> \<and>
   errFound (getBestNodeByMetrics (demoEnv backendLow False) emptyCache [''m1'', ''m2'']) =
     Some noNodeFound"
proof -
  have "getBestNodeByMetrics (demoEnv backendLow False) emptyCache [''m1'', ''m2''] =
      rankingPass (demoEnv backendLow False) emptyCache [''m1'', ''m2'']"
    by (rule getBestNodeByMetrics_miss) (simp_all add: emptyCache_def)
  then show ?thesis
    by (simp add: rankingPass_demo_m fetch_def splitFirst_demo getMetrics_demoLow)
qed

section \<open>The cache short-circuit\<close>

text \<open>
  C3. For every non-empty input list: if the cached ready-node list exists and
  equals the input list element by element, and a cached best node exists, then
  \<open>getBestNodeByMetrics\<close> returns that cached best node without an error, issues no
  metric query and leaves the cache as it was.
\<close>

theorem getBestNodeByMetrics_cache_hit:
  assumes "nodes \<noteq> []"
    and "cachedNodes c = Some nodes"
    and "bestCachedNode c = Some b"
  shows "bestNodeFound (getBestNodeByMetrics e c nodes) = b \<and>
    errFound (getBestNodeByMetrics e c nodes) = None \<and>
    queries (getBestNodeByMetrics e c nodes) = [] \<and>
    cacheAfter (getBestNodeByMetrics e c nodes) = c"
  by (simp add: getBestNodeByMetrics_hit [OF assms])

theorem getBestNodeByMetrics_cache_hit_witness:
  "cachedNodes warmCache = Some [''n1.example'', ''n2.example''] \<and>
   bestCachedNode warmCache = Some node10 \<and>
   bestNodeFound (getBestNodeByMetrics (demoEnv backendLow False) warmCache
     [''n1.example'', ''n2.example'']) = node10 \<and>
   queries (getBestNodeByMetrics (demoEnv backendLow False) warmCache
     [''n1.example'', ''n2.example'']) = []"
proof -
  have ne: "[''n1.example'', ''n2.example''] \<noteq> []" by simp
  have cn: "cachedNodes warmCache = Some [''n1.example'', ''n2.example'']"
    by (simp add: warmCache_def)
  have bn: "bestCachedNode warmCache = Some node10"
    by (simp add: warmCache_def)
  from getBestNodeByMetrics_cache_hit [OF ne cn bn, of "demoEnv backendLow False"] cn bn
  show ?thesis by blast
qed

text \<open>
  The empty list with a cached empty ready-node list and a cached best node: the guard on
  the empty list comes first, and the call fails instead of returning the cached node.
\<close>

theorem getBestNodeByMetrics_cache_hit_counterexample:
  "cachedNodes staleCache = Some [] \<and>
   bestCachedNode staleCache = Some node10 \<and>
   errFound (getBestNodeByMetrics (demoEnv backend12 True) staleCache []) =
     Some emptyNodeList \<and>
   bestNodeFound (getBestNodeByMetrics (demoEnv backend12 True) staleCache []) \<noteq> node10"
  by (simp add: getBestNodeByMetrics_def staleCache_def node10_def zeroNode_def)

section \<open>Two consecutive calls\<close>

text \<open>
  C4. For every node list, two consecutive calls with the identical list,
  starting from any state whose cached ready-node list equals that list and in which the
  first call succeeds: the second call issues no query and returns the node of the first
  call from the cache. When the best-node slot was empty before the first call, the
  first call queries each node of the list once, so the queries are issued exactly once
  in total; when the slot was set, the first call is served from the cache as well.
\<close>

theorem getBestNodeByMetrics_twice:
  assumes "cachedNodes c = Some nodes"
    and "errFound (getBestNodeByMetrics e1 c nodes) = None"
  shows "queries (getBestNodeByMetrics e2 (cacheAfter (getBestNodeByMetrics e1 c nodes)) nodes) = [] \<and>
    errFound (getBestNodeByMetrics e2 (cacheAfter (getBestNodeByMetrics e1 c nodes)) nodes) = None \<and>
    bestNodeFound (getBestNodeByMetrics e2 (cacheAfter (getBestNodeByMetrics e1 c nodes)) nodes) =
      bestNodeFound (getBestNodeByMetrics e1 c nodes) \<and>
    queries (getBestNodeByMetrics e1 c nodes) =
      (if bestCachedNode c = None then map splitFirst nodes else []) \<and>
    length (queries (getBestNodeByMetrics e1 c nodes) @
        queries (getBestNodeByMetrics e2 (cacheAfter (getBestNodeByMetrics e1 c nodes)) nodes)) =
      (if bestCachedNode c = None then length nodes else 0)"
proof -
  from assms(2) have ne: "nodes \<noteq> []"
    by (auto simp: getBestNodeByMetrics_def)
  show ?thesis
  proof (cases "bestCachedNode c")
    case (Some b)
    have r1: "getBestNodeByMetrics e1 c nodes =
        \<lparr>bestNodeFound = b, errFound = None, cacheAfter = c, queries = [],
         logged = [LogUsingCache]\<rparr>"
      by (rule getBestNodeByMetrics_hit [OF ne assms(1) Some])
    show ?thesis
      by (simp add: r1 getBestNodeByMetrics_hit [OF ne assms(1) Some] Some)
  next
    case None
    then have r1: "getBestNodeByMetrics e1 c nodes = rankingPass e1 c nodes"
      by (simp add: getBestNodeByMetrics_miss [OF ne])
    let ?b = "bestNodeFound (rankingPass e1 c nodes)"
    from assms(2) have c1: "cacheAfter (rankingPass e1 c nodes) = c\<lparr>bestCachedNode := Some ?b\<rparr>"
      by (simp add: r1 rankingPass_cache)
    have r2: "getBestNodeByMetrics e2 (c\<lparr>bestCachedNode := Some ?b\<rparr>) nodes =
        \<lparr>bestNodeFound = ?b, errFound = None, cacheAfter = c\<lparr>bestCachedNode := Some ?b\<rparr>,
         queries = [], logged = [LogUsingCache]\<rparr>"
      by (rule getBestNodeByMetrics_hit [OF ne]) (simp_all add: assms(1))
    show ?thesis
      by (simp add: r1 c1 r2 None rankingPass_queries)
  qed
qed

theorem getBestNodeByMetrics_twice_witness:
  "cachedNodes listedCache = Some [''n1.example'', ''n2.example''] \<and>
   errFound (getBestNodeByMetrics (demoEnv backend12 True) listedCache
     [''n1.example'', ''n2.example'']) = None \<and>
   queries (getBestNodeByMetrics (demoEnv backend12 True) listedCache
     [''n1.example'', ''n2.example'']) = [''n1'', ''n2''] \<and>
   queries (getBestNodeByMetrics (demoEnv backendLow False)
     (cacheAfter (getBestNodeByMetrics (demoEnv backend12 True) listedCache
        [''n1.example'', ''n2.example'']))
     [''n1.example'', ''n2.example'']) = []"
proof -
  let ?ns = "[''n1.example'', ''n2.example'']"
  have cn: "cachedNodes listedCache = Some ?ns" by (simp add: listedCache_def)
  have "getBestNodeByMetrics (demoEnv backend12 True) listedCache ?ns =
      rankingPass (demoEnv backend12 True) listedCache ?ns"
    by (rule getBestNodeByMetrics_miss) (simp_all add: listedCache_def)
  then have r1: "getBestNodeByMetrics (demoEnv backend12 True) listedCache ?ns =
     \<lparr>bestNodeFound = node10, errFound = None,
      cacheAfter = listedCache\<lparr>bestCachedNode := Some node10\<rparr>,
      queries = [''n1'', ''n2''], logged = []\<rparr>"
    by (simp only: rankingPass_demo12)
  then have ok: "errFound (getBestNodeByMetrics (demoEnv backend12 True) listedCache ?ns) = None"
    and q1: "queries (getBestNodeByMetrics (demoEnv backend12 True) listedCache ?ns) =
      [''n1'', ''n2'']"
    by simp_all
  from getBestNodeByMetrics_twice [OF cn ok, of "demoEnv backendLow False"] cn ok q1
  show ?thesis by blast
qed

text \<open>
  Starting from the empty cache the first call succeeds and the second call queries both
  hosts again: a ranking pass does not record the list it ranked.
\<close>

theorem getBestNodeByMetrics_twice_counterexample:
  "errFound (getBestNodeByMetrics (demoEnv backend12 True) emptyCache
     [''n1.example'', ''n2.example'']) = None \<and>
   queries (getBestNodeByMetrics (demoEnv backend12 True) emptyCache
     [''n1.example'', ''n2.example'']) = [''n1'', ''n2''] \<and>
   queries (getBestNodeByMetrics (demoEnv backend12 True)
     (cacheAfter (getBestNodeByMetrics (demoEnv backend12 True) emptyCache
        [''n1.example'', ''n2.example'']))
     [''n1.example'', ''n2.example'']) = [''n1'', ''n2'']"
proof -
  let ?e = "demoEnv backend12 True"
  let ?ns = "[''n1.example'', ''n2.example'']"
  let ?c = "emptyCache\<lparr>bestCachedNode := Some node10\<rparr>"
  have "getBestNodeByMetrics ?e emptyCache ?ns = rankingPass ?e emptyCache ?ns"
    by (rule getBestNodeByMetrics_miss) (simp_all add: emptyCache_def)
  then have r1: "getBestNodeByMetrics ?e emptyCache ?ns =
     \<lparr>bestNodeFound = node10, errFound = None, cacheAfter = ?c,
      queries = [''n1'', ''n2''], logged = []\<rparr>"
    by (simp only: rankingPass_demo12)
  have "getBestNodeByMetrics ?e ?c ?ns = rankingPass ?e ?c ?ns"
    by (rule getBestNodeByMetrics_miss) (simp_all add: emptyCache_def)
  then have r2: "queries (getBestNodeByMetrics ?e ?c ?ns) = [''n1'', ''n2'']"
    by (simp add: rankingPass_demo12)
  from r1 r2 show ?thesis by simp
qed

section \<open>The empty list\<close>

text \<open>
  C5. For the empty input list the call fails with \<open>emptyNodeList\<close>, queries no host
  and leaves both cache slots as they were.
\<close>

theorem getBestNodeByMetrics_empty:
  "getBestNodeByMetrics e c [] =
     \<lparr>bestNodeFound = zeroNode, errFound = Some emptyNodeList, cacheAfter = c,
      queries = [], logged = []\<rparr>"
  by (simp add: getBestNodeByMetrics_def)

section \<open>The cache slots after a call\<close>

lemma getBestNodeByMetrics_cases:
  "getBestNodeByMetrics e c nodes =
     \<lparr>bestNodeFound = zeroNode, errFound = Some emptyNodeList, cacheAfter = c,
      queries = [], logged = []\<rparr> \<or>
   (\<exists>b. bestCachedNode c = Some b \<and> getBestNodeByMetrics e c nodes =
     \<lparr>bestNodeFound = b, errFound = None, cacheAfter = c, queries = [],
      logged = [LogUsingCache]\<rparr>) \<or>
   getBestNodeByMetrics e c nodes = rankingPass e c nodes"
  by (auto simp add: getBestNodeByMetrics_def Data_def split: option.splits)

text \<open>
  C6. A call that returns an error, which is \<open>emptyNodeList\<close> or \<open>noNodeFound\<close>,
  leaves the cached best-node entry as it was; after a call that succeeds the cached
  best-node entry is the node returned.
\<close>

theorem getBestNodeByMetrics_best_slot:
  "(errFound (getBestNodeByMetrics e c nodes) \<noteq> None \<longrightarrow>
      bestCachedNode (cacheAfter (getBestNodeByMetrics e c nodes)) = bestCachedNode c \<and>
      (errFound (getBestNodeByMetrics e c nodes) = Some emptyNodeList \<or>
       errFound (getBestNodeByMetrics e c nodes) = Some noNodeFound)) \<and>
   (errFound (getBestNodeByMetrics e c nodes) = None \<longrightarrow>
      bestCachedNode (cacheAfter (getBestNodeByMetrics e c nodes)) =
        Some (bestNodeFound (getBestNodeByMetrics e c nodes)))"
proof -
  have pass: "(errFound (rankingPass e c nodes) \<noteq> None \<longrightarrow>
      bestCachedNode (cacheAfter (rankingPass e c nodes)) = bestCachedNode c \<and>
      errFound (rankingPass e c nodes) = Some noNodeFound) \<and>
   (errFound (rankingPass e c nodes) = None \<longrightarrow>
      bestCachedNode (cacheAfter (rankingPass e c nodes)) =
        Some (bestNodeFound (rankingPass e c nodes)))"
    by (simp add: rankingPass_def Let_def SetData_def)
  from getBestNodeByMetrics_cases [of e c nodes] show ?thesis
  proof (elim disjE exE conjE)
    assume "getBestNodeByMetrics e c nodes =
      \<lparr>bestNodeFound = zeroNode, errFound = Some emptyNodeList, cacheAfter = c,
       queries = [], logged = []\<rparr>"
    then show ?thesis by simp
  next
    fix b
    assume "bestCachedNode c = Some b" and "getBestNodeByMetrics e c nodes =
      \<lparr>bestNodeFound = b, errFound = None, cacheAfter = c, queries = [],
       logged = [LogUsingCache]\<rparr>"
    then show ?thesis by simp
  next
    assume "getBestNodeByMetrics e c nodes = rankingPass e c nodes"
    with pass show ?thesis by simp
  qed
qed

theorem getBestNodeByMetrics_best_slot_witness:
  "errFound (getBestNodeByMetrics (demoEnv backendLow True) staleCache [''a'']) =
     Some noNodeFound \<and>
   bestCachedNode (cacheAfter (getBestNodeByMetrics (demoEnv backendLow True) staleCache [''a''])) =
     Some node10 \<and>
   errFound (getBestNodeByMetrics (demoEnv backendLow True) staleCache [''z.example'']) = None \<and>
   bestCachedNode (cacheAfter
       (getBestNodeByMetrics (demoEnv backendLow True) staleCache [''z.example''])) =
     Some \<lparr>name = ''z.example'', metric = 0, err = None\<rparr>"
proof -
  let ?e = "demoEnv backendLow True"
  have "getBestNodeByMetrics ?e staleCache [''a''] = rankingPass ?e staleCache [''a'']"
    by (rule getBestNodeByMetrics_miss) (simp_all add: staleCache_def)
  then have ea: "errFound (getBestNodeByMetrics ?e staleCache [''a'']) = Some noNodeFound"
    by (simp add: rankingPass_demo_a)
  have "getBestNodeByMetrics ?e staleCache [''z.example''] =
      rankingPass ?e staleCache [''z.example'']"
    by (rule getBestNodeByMetrics_miss) (simp_all add: staleCache_def)
  then have ez: "errFound (getBestNodeByMetrics ?e staleCache [''z.example'']) = None"
    and bz: "bestNodeFound (getBestNodeByMetrics ?e staleCache [''z.example'']) =
      \<lparr>name = ''z.example'', metric = 0, err = None\<rparr>"
    by (simp_all add: rankingPass_demo_z)
  have old: "bestCachedNode staleCache = Some node10" by (simp add: staleCache_def)
  from getBestNodeByMetrics_best_slot [of ?e staleCache "[''a'']"] ea old
  have sa: "bestCachedNode (cacheAfter (getBestNodeByMetrics ?e staleCache [''a''])) =
      Some node10"
    by simp
  from getBestNodeByMetrics_best_slot [of ?e staleCache "[''z.example'']"] ez bz
  have sz: "bestCachedNode (cacheAfter (getBestNodeByMetrics ?e staleCache [''z.example''])) =
      Some \<lparr>name = ''z.example'', metric = 0, err = None\<rparr>"
    by simp
  from ea sa ez sz show ?thesis by blast
qed

text \<open>
  C9. Whatever the input list and the outcome, \<open>getBestNodeByMetrics\<close> leaves the
  ready-node-list slot as it was: the cache afterwards differs from the cache before in
  the best-node slot at most. So a pass over a list that differs from the cached list
  does not record the list it ranked.
\<close>

theorem getBestNodeByMetrics_frame:
  "cachedNodes (cacheAfter (getBestNodeByMetrics e c nodes)) = cachedNodes c \<and>
   cacheAfter (getBestNodeByMetrics e c nodes) =
     c\<lparr>bestCachedNode := bestCachedNode (cacheAfter (getBestNodeByMetrics e c nodes))\<rparr> \<and>
   (cachedNodes c \<noteq> Some nodes \<longrightarrow>
      cachedNodes (cacheAfter (getBestNodeByMetrics e c nodes)) \<noteq> Some nodes)"
proof -
  have pass: "cacheAfter (rankingPass e c nodes) =
      c\<lparr>bestCachedNode := bestCachedNode (cacheAfter (rankingPass e c nodes))\<rparr>"
    by (simp add: rankingPass_cache)
  have "cacheAfter (getBestNodeByMetrics e c nodes) =
     c\<lparr>bestCachedNode := bestCachedNode (cacheAfter (getBestNodeByMetrics e c nodes))\<rparr>"
    using getBestNodeByMetrics_cases [of e c nodes] pass by auto
  moreover from this
  have "cachedNodes (cacheAfter (getBestNodeByMetrics e c nodes)) = cachedNodes c"
    by (metis cache.select_convs(1) cache.surjective cache.update_convs(2))
  ultimately show ?thesis by simp
qed

theorem getBestNodeByMetrics_frame_witness:
  "errFound (getBestNodeByMetrics (demoEnv backend12 True) emptyCache
     [''n1.example'', ''n2.example'']) = None \<and>
   cachedNodes emptyCache = None \<and>
   cachedNodes (cacheAfter (getBestNodeByMetrics (demoEnv backend12 True) emptyCache
     [''n1.example'', ''n2.example''])) = None"
proof -
  let ?e = "demoEnv backend12 True"
  let ?ns = "[''n1.example'', ''n2.example'']"
  have "getBestNodeByMetrics ?e emptyCache ?ns = rankingPass ?e emptyCache ?ns"
    by (rule getBestNodeByMetrics_miss) (simp_all add: emptyCache_def)
  then have ok: "errFound (getBestNodeByMetrics ?e emptyCache ?ns) = None"
    by (simp add: rankingPass_demo12)
  have cn: "cachedNodes emptyCache = None" by (simp add: emptyCache_def)
  from getBestNodeByMetrics_frame [of ?e emptyCache ?ns] cn
  have "cachedNodes (cacheAfter (getBestNodeByMetrics ?e emptyCache ?ns)) = None"
    by simp
  with ok cn show ?thesis by blast
qed

section \<open>A failed listing\<close>

text \<open>
  C7. When the listing fails with an empty result and the cache is empty,
  \<open>nodesAvailable\<close> logs the error, returns the empty list and stores that list in the
  ready-node-list slot; the next call is served from the cache and never lists again,
  although the listing would now succeed with a ready node.
\<close>

theorem nodesAvailable_failed_listing:
  "nodesAvailable ([], Some (apiError ''connection refused'')) emptyCache =
     \<lparr>readyNodes = [], cacheAfterListing = \<lparr>cachedNodes = Some [], bestCachedNode = None\<rparr>,
      listCalls = 1, loggedListing = [LogError (apiError ''connection refused'')]\<rparr> \<and>
   nodesAvailable
     ([\<lparr>MetadataName = ''n1.example'',
        StatusConditions = [\<lparr>ConditionType = ''Ready'', ConditionStatus = ''True''\<rparr>]\<rparr>], None)
     (cacheAfterListing (nodesAvailable ([], Some (apiError ''connection refused'')) emptyCache)) =
     \<lparr>readyNodes = [], cacheAfterListing = \<lparr>cachedNodes = Some [], bestCachedNode = None\<rparr>,
      listCalls = 0, loggedListing = []\<rparr> \<and>
   nodesAvailable
     ([\<lparr>MetadataName = ''n1.example'',
        StatusConditions = [\<lparr>ConditionType = ''Ready'', ConditionStatus = ''True''\<rparr>]\<rparr>], None)
     emptyCache =
     \<lparr>readyNodes = [''n1.example''],
      cacheAfterListing = \<lparr>cachedNodes = Some [''n1.example''], bestCachedNode = None\<rparr>,
      listCalls = 1, loggedListing = []\<rparr>"
  by (simp add: nodesAvailable_def Data_def SetData_def emptyCache_def Let_def)

section \<open>The binding payload\<close>

lemma coerceFrom_valid: "validFrom k s \<Longrightarrow> coerceFrom k s = s"
  by (induction k s rule: coerceFrom.induct) (simp_all del: runeLen.simps split: if_splits)

lemma toValidUTF8_valid: "utf8Valid s \<Longrightarrow> toValidUTF8 s = s"
  by (simp add: utf8Valid_def toValidUTF8_def coerceFrom_valid)

lemma toValidUTF8_keys:
  "toValidUTF8 ''target'' = ''target''"
  "toValidUTF8 ''metadata'' = ''metadata''"
  "toValidUTF8 ''kind'' = ''kind''"
  "toValidUTF8 ''apiVersion'' = ''apiVersion''"
  "toValidUTF8 ''name'' = ''name''"
  "toValidUTF8 ''namespace'' = ''namespace''"
  "toValidUTF8 ''Node'' = ''Node''"
  "toValidUTF8 ''v1'' = ''v1''"
  "toValidUTF8 ''default'' = ''default''"
  by (simp_all add: toValidUTF8_def byteIn_def)

lemma scheduler_call:
  "scheduler api podName nodeName namespace =
     api (if namespace = [] then ''default'' else namespace)
       (JObject
          [(''target'', JObject
              [(''kind'', JString ''Node''),
               (''apiVersion'', JString ''v1''),
               (''name'', JString (toValidUTF8 nodeName)),
               (''namespace'',
                JString (toValidUTF8 (if namespace = [] then ''default'' else namespace)))]),
           (''metadata'', JObject
              [(''name'', JString (toValidUTF8 podName)),
               (''namespace'',
                JString (toValidUTF8 (if namespace = [] then ''default'' else namespace)))])])"
  by (simp add: scheduler_def Let_def toValidUTF8_keys)

text \<open>
  C10. For every pod name, node name and namespace the binding call passes one payload
  to \<open>CreateNamespacedBinding\<close>, whatever that call does with it, together with the
  namespace, which is \<open>default\<close> when the given one is empty. The \<open>target\<close> object of
  the payload has kind \<open>Node\<close>, apiVersion \<open>v1\<close>, the node name and the namespace, its
  \<open>metadata\<close> object has the pod name and the same namespace, each of the three as
  \<^verbatim>\<open>json.Marshal\<close> writes it: with every byte that is not part of valid UTF-8
  replaced by U+FFFD. So for a pod name, node name and namespace that are valid UTF-8
  the payload carries exactly the given strings.
\<close>

theorem scheduler_payload:
  "\<exists>data target metadata.
     (\<forall>api. scheduler api podName nodeName namespace =
        api (if namespace = [] then ''default'' else namespace) data) \<and>
     field data ''target'' = Some target \<and>
     field data ''metadata'' = Some metadata \<and>
     field target ''kind'' = Some (JString ''Node'') \<and>
     field target ''apiVersion'' = Some (JString ''v1'') \<and>
     field target ''name'' = Some (JString (toValidUTF8 nodeName)) \<and>
     field target ''namespace'' =
       Some (JString (toValidUTF8 (if namespace = [] then ''default'' else namespace))) \<and>
     field metadata ''name'' = Some (JString (toValidUTF8 podName)) \<and>
     field metadata ''namespace'' =
       Some (JString (toValidUTF8 (if namespace = [] then ''default'' else namespace))) \<and>
     (utf8Valid nodeName \<longrightarrow> field target ''name'' = Some (JString nodeName)) \<and>
     (utf8Valid podName \<longrightarrow> field metadata ''name'' = Some (JString podName)) \<and>
     (utf8Valid namespace \<longrightarrow>
        field target ''namespace'' =
          Some (JString (if namespace = [] then ''default'' else namespace)) \<and>
        field metadata ''namespace'' =
          Some (JString (if namespace = [] then ''default'' else namespace)))"
proof -
  let ?ns = "if namespace = [] then ''default'' else namespace"
  let ?target = "JObject [(''kind'', JString ''Node''), (''apiVersion'', JString ''v1''),
    (''name'', JString (toValidUTF8 nodeName)), (''namespace'', JString (toValidUTF8 ?ns))]"
  let ?metadata = "JObject [(''name'', JString (toValidUTF8 podName)),
    (''namespace'', JString (toValidUTF8 ?ns))]"
  let ?data = "JObject [(''target'', ?target), (''metadata'', ?metadata)]"
  have call: "\<forall>api. scheduler api podName nodeName namespace = api ?ns ?data"
    by (simp only: scheduler_call) simp
  have d: "field ?data ''target'' = Some ?target" "field ?data ''metadata'' = Some ?metadata"
    by simp_all
  have t: "field ?target ''kind'' = Some (JString ''Node'')"
    "field ?target ''apiVersion'' = Some (JString ''v1'')"
    "field ?target ''name'' = Some (JString (toValidUTF8 nodeName))"
    "field ?target ''namespace'' = Some (JString (toValidUTF8 ?ns))"
    by simp_all
  have m: "field ?metadata ''name'' = Some (JString (toValidUTF8 podName))"
    "field ?metadata ''namespace'' = Some (JString (toValidUTF8 ?ns))"
    by simp_all
  have vn: "utf8Valid nodeName \<longrightarrow> field ?target ''name'' = Some (JString nodeName)"
    by (simp add: toValidUTF8_valid)
  have vp: "utf8Valid podName \<longrightarrow> field ?metadata ''name'' = Some (JString podName)"
    by (simp add: toValidUTF8_valid)
  have "utf8Valid namespace \<Longrightarrow> toValidUTF8 ?ns = ?ns"
    by (simp add: toValidUTF8_valid toValidUTF8_keys)
  then have vs: "utf8Valid namespace \<longrightarrow>
      field ?target ''namespace'' = Some (JString ?ns) \<and>
      field ?metadata ''namespace'' = Some (JString ?ns)"
    by simp
  from call d t m vn vp vs show ?thesis by blast
qed

theorem scheduler_payload_witness:
  "utf8Valid ''pod-1'' \<and> utf8Valid ''n1.example'' \<and> utf8Valid [] \<and>
   fst (scheduler Pair ''pod-1'' ''n1.example'' []) = ''default'' \<and>
   (\<exists>target metadata.
      field (snd (scheduler Pair ''pod-1'' ''n1.example'' [])) ''target'' = Some target \<and>
      field (snd (scheduler Pair ''pod-1'' ''n1.example'' [])) ''metadata'' = Some metadata \<and>
      field target ''name'' = Some (JString ''n1.example'') \<and>
      field target ''namespace'' = Some (JString ''default'') \<and>
      field metadata ''name'' = Some (JString ''pod-1'') \<and>
      field metadata ''namespace'' = Some (JString ''default''))"
proof -
  have v: "utf8Valid ''pod-1''" "utf8Valid ''n1.example''" "utf8Valid []"
    by (simp_all add: utf8Valid_def byteIn_def)
  from scheduler_payload [of "''pod-1''" "''n1.example''" "[]"]
  obtain data target metadata where
    call: "\<forall>api :: string \<Rightarrow> json \<Rightarrow> string \<times> json.
      scheduler api ''pod-1'' ''n1.example'' [] = api ''default'' data"
    and f: "field data ''target'' = Some target" "field data ''metadata'' = Some metadata"
    and n: "utf8Valid ''n1.example'' \<longrightarrow> field target ''name'' = Some (JString ''n1.example'')"
    and p: "utf8Valid ''pod-1'' \<longrightarrow> field metadata ''name'' = Some (JString ''pod-1'')"
    and s: "utf8Valid [] \<longrightarrow> field target ''namespace'' = Some (JString ''default'') \<and>
      field metadata ''namespace'' = Some (JString ''default'')"
    by (simp del: field.simps) blast
  from call have "scheduler Pair ''pod-1'' ''n1.example'' [] = (''default'', data)"
    by blast
  with v f n p s show ?thesis by auto
qed

text \<open>
  The pod name \<open>p\<close> followed by the byte \<open>0xFF\<close> and such a namespace: the payload
  carries them with U+FFFD in place of that byte, not the given strings, and the
  namespace of the payload differs from the namespace the binding is created in.
\<close>

theorem scheduler_payload_counterexample:
  "scheduler Pair [CHR 0x70, CHR 0xFF] ''n1'' [CHR 0x6E, CHR 0x73, CHR 0xFF] =
     ([CHR 0x6E, CHR 0x73, CHR 0xFF],
      JObject
        [(''target'', JObject
            [(''kind'', JString ''Node''),
             (''apiVersion'', JString ''v1''),
             (''name'', JString ''n1''),
             (''namespace'', JString [CHR 0x6E, CHR 0x73, CHR 0xEF, CHR 0xBF, CHR 0xBD])]),
         (''metadata'', JObject
            [(''name'', JString [CHR 0x70, CHR 0xEF, CHR 0xBF, CHR 0xBD]),
             (''namespace'', JString [CHR 0x6E, CHR 0x73, CHR 0xEF, CHR 0xBF, CHR 0xBD])])]) \<and>
   [CHR 0x70, CHR 0xEF, CHR 0xBF, CHR 0xBD] \<noteq> [CHR 0x70, CHR 0xFF] \<and>
   [CHR 0x6E, CHR 0x73, CHR 0xEF, CHR 0xBF, CHR 0xBD] \<noteq> [CHR 0x6E, CHR 0x73, CHR 0xFF]"
  by (simp add: scheduler_call) (simp add: toValidUTF8_def byteIn_def replacementRune_def)

end
